theory Spec2Isabelle
  imports Main "HOL-Library.Word" "HOL-Library.AList"
begin

section \<open>The Mongo store client of app-functions-sdk-go\<close>

text \<open>
  A shallow embedding of \<^verbatim>\<open>internal/store/db/mongo/store.go\<close>. The client's methods
  are functions that take the state of the \<^verbatim>\<open>store\<close> collection and return the
  method's Go results together with the new state. The Mongo driver is the
  environment: every driver call may fail, and the error it fails with (or
  \<open>None\<close> when it is served) is an argument of the method that makes the call.
  The deadline of a call's context shows as such a failure. The methods
  \<^verbatim>\<open>Store\<close>, \<^verbatim>\<open>RetrieveFromStore\<close>, \<^verbatim>\<open>Update\<close>, \<^verbatim>\<open>UpdateRetryCount\<close> and
  \<^verbatim>\<open>RemoveFromStore\<close> are modelled; \<^verbatim>\<open>NewClient\<close>, which races a goroutine
  against a timer, and \<^verbatim>\<open>Disconnect\<close> are not.
\<close>

subsection \<open>Errors\<close>

datatype error =
    ErrorNew string          \<comment> \<open>\<^verbatim>\<open>errors.New(msg)\<close>\<close>
  | ErrNoDocuments           \<comment> \<open>\<^verbatim>\<open>mongo.ErrNoDocuments\<close>, the lookup matched nothing\<close>
  | DuplicateKey             \<comment> \<open>the server's write error for an \<^verbatim>\<open>_id\<close> already present\<close>
  | DriverError string       \<comment> \<open>any other driver failure: network, timeout of the call's context\<close>
  | DecodeError string       \<comment> \<open>a document field that does not fit the struct field\<close>
  | Panic string             \<comment> \<open>a failed type assertion\<close>

text \<open>The names of the specification's error taxonomy for the errors the client creates.\<close>

definition DuplicateObject :: error where
  "DuplicateObject = ErrorNew ''object exists in database''"

definition MissingIdentifier_Update :: error where
  "MissingIdentifier_Update = ErrorNew ''update argument object does not have an UUID''"

definition MissingIdentifier :: error where
  "MissingIdentifier = ErrorNew ''no UUID provided''"

subsection \<open>Object identifiers\<close>

text \<open>
  \<^verbatim>\<open>primitive.ObjectID\<close> is an array of twelve bytes, here a word of 96 bits;
  \<^verbatim>\<open>primitive.NilObjectID\<close> is the array of zeros. \<^verbatim>\<open>Hex\<close> writes the
  twelve bytes as 24 lower-case hexadecimal digits.
\<close>

type_synonym ObjectID = "96 word"

definition NilObjectID :: ObjectID where
  "NilObjectID = 0"

definition hexdigit :: "nat \<Rightarrow> char" where
  "hexdigit n = ''0123456789abcdef'' ! n"

fun hex_digits :: "nat \<Rightarrow> nat \<Rightarrow> string" where
  "hex_digits 0 v = []"
| "hex_digits (Suc n) v = hex_digits n (v div 16) @ [hexdigit (v mod 16)]"

definition Hex :: "ObjectID \<Rightarrow> string" where
  "Hex i = hex_digits 24 (unat i)"

subsection \<open>Documents\<close>

text \<open>
  A \<^verbatim>\<open>bson.M\<close> is a list of key-value pairs read through \<open>map_of\<close>; the values
  are the BSON values the client writes. The byte slice of a payload is a list
  of bytes, Go's \<^verbatim>\<open>int\<close> an integer (the client does no arithmetic on it).
\<close>

datatype bson_value =
    ObjectIDv ObjectID
  | Stringv string
  | Binaryv "8 word list"
  | Intv int
  | Documentv "(string \<times> bson_value) list"

type_synonym bsonM = "(string \<times> bson_value) list"

text \<open>
  Modelled from the spec: \<^verbatim>\<open>contracts.StoredObject\<close>, the entity the callers of
  the client see, is declared in the package \<^verbatim>\<open>contracts\<close>, which is not among
  the sources. Its fields are those \<^verbatim>\<open>Store\<close> reads, with the types of the
  specification's data model.
\<close>

record StoredObject =
  ID :: string
  AppServiceKey :: string
  Payload :: "8 word list"
  RetryCount :: int
  PipelinePosition :: int
  Version :: string
  CorrelationID :: string
  EventID :: string
  EventChecksum :: string

text \<open>
  Modelled from the spec: \<^verbatim>\<open>models.StoredObject\<close>, the struct a document is
  decoded into, is declared in the package \<^verbatim>\<open>models\<close>, which is not among the
  sources. Its fields are those of the specification's data model, with the
  identifier held as the pair of the opaque identifier (the field
  \<^verbatim>\<open>ObjectID\<close> that \<^verbatim>\<open>Update\<close> reads) and the UUID; each field is stored under
  the key \<^verbatim>\<open>Store\<close> writes it to.
\<close>

record StoredObject_model =
  m_ObjectID :: ObjectID
  m_UUID :: string
  m_AppServiceKey :: string
  m_Payload :: "8 word list"
  m_RetryCount :: int
  m_PipelinePosition :: int
  m_Version :: string
  m_CorrelationID :: string
  m_EventID :: string
  m_EventChecksum :: string

text \<open>
  The zero value \<^verbatim>\<open>models.StoredObject{}\<close>. A nil slice and an empty one are
  both the empty list; \<^verbatim>\<open>reflect.DeepEqual\<close> tells them apart only on a struct
  whose other fields are all zero, which no document with an object identifier
  decodes to.
\<close>

definition zero_model :: StoredObject_model where
  "zero_model = \<lparr> m_ObjectID = NilObjectID, m_UUID = [], m_AppServiceKey = [],
     m_Payload = [], m_RetryCount = 0, m_PipelinePosition = 0, m_Version = [],
     m_CorrelationID = [], m_EventID = [], m_EventChecksum = [] \<rparr>"

subsection \<open>Decoding a document into the struct\<close>

text \<open>
  The driver's unmarshalling reads the elements of the document in their order
  and stores each into the field of its key; a key the struct has no field for
  is skipped, a key the document lacks leaves the field as it was, and a value
  of another type than the field's stops the decoding with an error, the
  fields stored so far staying. The result is the error and the struct.
\<close>

definition set_field :: "string \<Rightarrow> bson_value \<Rightarrow> StoredObject_model \<Rightarrow> error + StoredObject_model" where
  "set_field k v m =
     (if k = ''_id'' then
        (case v of ObjectIDv i \<Rightarrow> Inr (m \<lparr> m_ObjectID := i \<rparr>) | _ \<Rightarrow> Inl (DecodeError k))
      else if k = ''uuid'' then
        (case v of Stringv s \<Rightarrow> Inr (m \<lparr> m_UUID := s \<rparr>) | _ \<Rightarrow> Inl (DecodeError k))
      else if k = ''appServiceKey'' then
        (case v of Stringv s \<Rightarrow> Inr (m \<lparr> m_AppServiceKey := s \<rparr>) | _ \<Rightarrow> Inl (DecodeError k))
      else if k = ''payload'' then
        (case v of Binaryv b \<Rightarrow> Inr (m \<lparr> m_Payload := b \<rparr>) | _ \<Rightarrow> Inl (DecodeError k))
      else if k = ''retryCount'' then
        (case v of Intv n \<Rightarrow> Inr (m \<lparr> m_RetryCount := n \<rparr>) | _ \<Rightarrow> Inl (DecodeError k))
      else if k = ''pipelinePosition'' then
        (case v of Intv n \<Rightarrow> Inr (m \<lparr> m_PipelinePosition := n \<rparr>) | _ \<Rightarrow> Inl (DecodeError k))
      else if k = ''version'' then
        (case v of Stringv s \<Rightarrow> Inr (m \<lparr> m_Version := s \<rparr>) | _ \<Rightarrow> Inl (DecodeError k))
      else if k = ''correlationID'' then
        (case v of Stringv s \<Rightarrow> Inr (m \<lparr> m_CorrelationID := s \<rparr>) | _ \<Rightarrow> Inl (DecodeError k))
      else if k = ''eventID'' then
        (case v of Stringv s \<Rightarrow> Inr (m \<lparr> m_EventID := s \<rparr>) | _ \<Rightarrow> Inl (DecodeError k))
      else if k = ''eventChecksum'' then
        (case v of Stringv s \<Rightarrow> Inr (m \<lparr> m_EventChecksum := s \<rparr>) | _ \<Rightarrow> Inl (DecodeError k))
      else Inr m)"

fun Unmarshal :: "bsonM \<Rightarrow> StoredObject_model \<Rightarrow> error option \<times> StoredObject_model" where
  "Unmarshal [] m = (None, m)"
| "Unmarshal ((k, v) # es) m =
     (case set_field k v m of
        Inl e \<Rightarrow> (Some e, m)
      | Inr m' \<Rightarrow> Unmarshal es m')"

subsection \<open>The collection and the driver\<close>

text \<open>
  The state is the list of the documents of the collection \<^verbatim>\<open>store\<close>, in the
  store's order, and the log of the driver calls made so far, each with its
  arguments. A call is logged whether it is served or fails.
\<close>

datatype driver_call =
    FindOne_call bsonM
  | InsertOne_call bsonM
  | Find_call bsonM
  | ReplaceOne_call bsonM bsonM
  | UpdateOne_call bsonM bsonM
  | DeleteOne_call bsonM

record Database =
  docs :: "bsonM list"
  calls :: "driver_call list"

text \<open>A filter matches a document that has each of the filter's keys with the filter's value.\<close>

definition matches :: "bsonM \<Rightarrow> bsonM \<Rightarrow> bool" where
  "matches flt d = list_all (\<lambda>(k, v). map_of d k = Some v) flt"

definition logged :: "driver_call \<Rightarrow> Database \<Rightarrow> Database" where
  "logged c db = db \<lparr> calls := calls db @ [c] \<rparr>"

text \<open>
  \<^verbatim>\<open>FindOne\<close> yields a \<^verbatim>\<open>SingleResult\<close>: the error of the call, or
  \<^verbatim>\<open>ErrNoDocuments\<close>, or the first matching document.
\<close>

type_synonym SingleResult = "error + bsonM"

definition FindOne :: "error option \<Rightarrow> bsonM \<Rightarrow> Database \<Rightarrow> SingleResult \<times> Database" where
  "FindOne fault flt db =
     (case fault of
        Some e \<Rightarrow> (Inl e, logged (FindOne_call flt) db)
      | None \<Rightarrow>
          (case List.find (matches flt) (docs db) of
             None \<Rightarrow> (Inl ErrNoDocuments, logged (FindOne_call flt) db)
           | Some d \<Rightarrow> (Inr d, logged (FindOne_call flt) db)))"

text \<open>
  \<^verbatim>\<open>SingleResult.Decode(&m)\<close> returns the error of the lookup and leaves \<open>m\<close> as
  it was, or decodes the document into \<open>m\<close>. The result is the error and the
  content of \<open>m\<close> afterwards.
\<close>

definition SingleResult_Decode ::
  "SingleResult \<Rightarrow> StoredObject_model \<Rightarrow> error option \<times> StoredObject_model" where
  "SingleResult_Decode result m =
     (case result of
        Inl e \<Rightarrow> (Some e, m)
      | Inr d \<Rightarrow> Unmarshal d m)"

text \<open>
  \<^verbatim>\<open>InsertOne\<close>: the driver gives a document without \<^verbatim>\<open>_id\<close> a new object
  identifier (\<open>nid\<close>, chosen by the environment), the server refuses an
  \<^verbatim>\<open>_id\<close> that a document of the collection has, and the result is the
  \<^verbatim>\<open>_id\<close> inserted.
\<close>

definition inserted_id :: "ObjectID \<Rightarrow> bsonM \<Rightarrow> bson_value" where
  "inserted_id nid doc = (case map_of doc ''_id'' of None \<Rightarrow> ObjectIDv nid | Some v \<Rightarrow> v)"

definition with_id :: "ObjectID \<Rightarrow> bsonM \<Rightarrow> bsonM" where
  "with_id nid doc =
     (case map_of doc ''_id'' of None \<Rightarrow> (''_id'', ObjectIDv nid) # doc | Some _ \<Rightarrow> doc)"

definition InsertOne ::
  "error option \<Rightarrow> ObjectID \<Rightarrow> bsonM \<Rightarrow> Database \<Rightarrow> (error + bson_value) \<times> Database" where
  "InsertOne fault nid doc db =
     (case fault of
        Some e \<Rightarrow> (Inl e, logged (InsertOne_call doc) db)
      | None \<Rightarrow>
          if list_ex (\<lambda>d'. map_of d' ''_id'' = Some (inserted_id nid doc)) (docs db)
          then (Inl DuplicateKey, logged (InsertOne_call doc) db)
          else (Inr (inserted_id nid doc),
                logged (InsertOne_call doc) (db \<lparr> docs := docs db @ [with_id nid doc] \<rparr>)))"

text \<open>
  \<^verbatim>\<open>UpdateOne\<close> with a \<^verbatim>\<open>$set\<close> update sets the listed fields of the first
  matching document; \<^verbatim>\<open>DeleteOne\<close> removes the first matching document. Neither
  fails when no document matches.
\<close>

fun update_first :: "('a \<Rightarrow> bool) \<Rightarrow> ('a \<Rightarrow> 'a) \<Rightarrow> 'a list \<Rightarrow> 'a list" where
  "update_first P f [] = []"
| "update_first P f (x # xs) = (if P x then f x # xs else x # update_first P f xs)"

fun delete_first :: "('a \<Rightarrow> bool) \<Rightarrow> 'a list \<Rightarrow> 'a list" where
  "delete_first P [] = []"
| "delete_first P (x # xs) = (if P x then xs else x # delete_first P xs)"

definition apply_update :: "bsonM \<Rightarrow> bsonM \<Rightarrow> bsonM" where
  "apply_update upd d =
     (case map_of upd ''$set'' of
        Some (Documentv fs) \<Rightarrow> foldl (\<lambda>d' (k, v). AList.update k v d') d fs
      | _ \<Rightarrow> d)"

definition UpdateOne :: "error option \<Rightarrow> bsonM \<Rightarrow> bsonM \<Rightarrow> Database \<Rightarrow> error option \<times> Database" where
  "UpdateOne fault flt upd db =
     (case fault of
        Some e \<Rightarrow> (Some e, logged (UpdateOne_call flt upd) db)
      | None \<Rightarrow>
          (None, logged (UpdateOne_call flt upd)
                   (db \<lparr> docs := update_first (matches flt) (apply_update upd) (docs db) \<rparr>)))"

definition DeleteOne :: "error option \<Rightarrow> bsonM \<Rightarrow> Database \<Rightarrow> error option \<times> Database" where
  "DeleteOne fault flt db =
     (case fault of
        Some e \<Rightarrow> (Some e, logged (DeleteOne_call flt) db)
      | None \<Rightarrow>
          (None, logged (DeleteOne_call flt)
                   (db \<lparr> docs := delete_first (matches flt) (docs db) \<rparr>)))"

subsection \<open>Store\<close>

text \<open>
  \<^verbatim>\<open>models.FromContractId\<close> is not among the sources: the methods take it as
  the parameter \<open>dec\<close>, the error or the pair of the opaque identifier and
  the UUID. The environment of one call of \<^verbatim>\<open>Store\<close> is the outcome of its two
  driver calls and the identifier the driver would generate.
\<close>

type_synonym decoder = "string \<Rightarrow> error + ObjectID \<times> string"

record store_env =
  lookup_fault :: "error option"
  insert_fault :: "error option"
  new_id :: ObjectID

text \<open>The two document literals of \<^verbatim>\<open>Store\<close>, without and with the key \<^verbatim>\<open>_id\<close>.\<close>

definition doc_unassigned :: "string \<Rightarrow> StoredObject \<Rightarrow> bsonM" where
  "doc_unassigned uuid obj =
     [(''uuid'', Stringv uuid),
      (''appServiceKey'', Stringv (AppServiceKey obj)),
      (''payload'', Binaryv (Payload obj)),
      (''retryCount'', Intv (RetryCount obj)),
      (''pipelinePosition'', Intv (PipelinePosition obj)),
      (''version'', Stringv (Version obj)),
      (''correlationID'', Stringv (CorrelationID obj)),
      (''eventID'', Stringv (EventID obj)),
      (''eventChecksum'', Stringv (EventChecksum obj))]"

definition doc_assigned :: "ObjectID \<Rightarrow> string \<Rightarrow> StoredObject \<Rightarrow> bsonM" where
  "doc_assigned objID uuid obj =
     [(''_id'', ObjectIDv objID),
      (''uuid'', Stringv uuid),
      (''appServiceKey'', Stringv (AppServiceKey obj)),
      (''payload'', Binaryv (Payload obj)),
      (''retryCount'', Intv (RetryCount obj)),
      (''pipelinePosition'', Intv (PipelinePosition obj)),
      (''version'', Stringv (Version obj)),
      (''correlationID'', Stringv (CorrelationID obj)),
      (''eventID'', Stringv (EventID obj)),
      (''eventChecksum'', Stringv (EventChecksum obj))]"

text \<open>Lines 97 to 102: the insertion and the identifier returned.\<close>

definition Store_insert ::
  "store_env \<Rightarrow> bsonM \<Rightarrow> Database \<Rightarrow> (string \<times> error option) \<times> Database" where
  "Store_insert env doc db =
     (case InsertOne (insert_fault env) (new_id env) doc db of
        (Inl err, db') \<Rightarrow> (([], Some err), db')
      | (Inr (ObjectIDv i), db') \<Rightarrow> ((Hex i, None), db')
      | (Inr _, db') \<Rightarrow> (([], Some (Panic ''interface conversion'')), db'))"

definition Store ::
  "decoder \<Rightarrow> store_env \<Rightarrow> Database \<Rightarrow> StoredObject \<Rightarrow> (string \<times> error option) \<times> Database" where
  "Store dec env db obj =
     (case dec (ID obj) of
        Inl err \<Rightarrow> (([], Some err), db)
      | Inr (objID, uuid) \<Rightarrow>
          if objID = NilObjectID then
            (let flt = [(''uuid'', Stringv uuid)];
                 (result, db1) = FindOne (lookup_fault env) flt db;
                 m = snd (SingleResult_Decode result zero_model)
             in if m \<noteq> zero_model
                then (([], Some (ErrorNew ''object exists in database'')), db1)
                else Store_insert env (doc_unassigned uuid obj) db1)
          else Store_insert env (doc_assigned objID uuid obj) db)"

subsection \<open>RetrieveFromStore\<close>

text \<open>
  \<^verbatim>\<open>Find\<close> fails, or yields a cursor over the matching documents. The
  iteration may break off: \<open>Some (k, e)\<close> is the environment in which the
  cursor delivers \<open>k\<close> documents and then stops with the error \<open>e\<close>, which
  \<^verbatim>\<open>cursor.Err()\<close> reports.
\<close>

record Cursor =
  batch :: "bsonM list"
  cursor_Err :: "error option"

record retrieve_env =
  find_fault :: "error option"
  iter_fault :: "(nat \<times> error) option"

definition open_cursor :: "(nat \<times> error) option \<Rightarrow> bsonM list \<Rightarrow> Cursor" where
  "open_cursor it ms =
     (case it of
        None \<Rightarrow> \<lparr> batch = ms, cursor_Err = None \<rparr>
      | Some (k, e) \<Rightarrow> \<lparr> batch = take k ms, cursor_Err = Some e \<rparr>)"

definition Find :: "retrieve_env \<Rightarrow> bsonM \<Rightarrow> Database \<Rightarrow> (error + Cursor) \<times> Database" where
  "Find env flt db =
     (case find_fault env of
        Some e \<Rightarrow> (Inl e, logged (Find_call flt) db)
      | None \<Rightarrow>
          (Inr (open_cursor (iter_fault env) (filter (matches flt) (docs db))),
           logged (Find_call flt) db))"

text \<open>
  Modelled from the spec: \<^verbatim>\<open>ToContract\<close> of the package \<^verbatim>\<open>models\<close> is not
  among the sources. It is the field-for-field projection whose \<^verbatim>\<open>ID\<close> is the
  encoding \<open>enc\<close> of the opaque identifier and the UUID.
\<close>

type_synonym encoder = "ObjectID \<Rightarrow> string \<Rightarrow> string"

definition ToContract :: "encoder \<Rightarrow> StoredObject_model \<Rightarrow> StoredObject" where
  "ToContract enc m =
     \<lparr> ID = enc (m_ObjectID m) (m_UUID m), AppServiceKey = m_AppServiceKey m,
       Payload = m_Payload m, RetryCount = m_RetryCount m,
       PipelinePosition = m_PipelinePosition m, Version = m_Version m,
       CorrelationID = m_CorrelationID m, EventID = m_EventID m,
       EventChecksum = m_EventChecksum m \<rparr>"

text \<open>The loop over the cursor: each document is decoded and appended, the first failure returns.\<close>

fun decode_loop :: "bsonM list \<Rightarrow> StoredObject_model list \<Rightarrow> error + StoredObject_model list" where
  "decode_loop [] modelSlice = Inr modelSlice"
| "decode_loop (d # ds) modelSlice =
     (case Unmarshal d zero_model of
        (Some err, _) \<Rightarrow> Inl err
      | (None, p) \<Rightarrow> decode_loop ds (modelSlice @ [p]))"

definition RetrieveFromStore ::
  "encoder \<Rightarrow> retrieve_env \<Rightarrow> Database \<Rightarrow> string \<Rightarrow> (StoredObject list \<times> error option) \<times> Database" where
  "RetrieveFromStore enc env db appServiceKey =
     (let flt = [(''appServiceKey'', Stringv appServiceKey)] in
      case Find env flt db of
        (Inl err, db') \<Rightarrow> (([], Some err), db')
      | (Inr cursor, db') \<Rightarrow>
          (case decode_loop (batch cursor) [] of
             Inl err \<Rightarrow> (([], Some err), db')
           | Inr modelSlice \<Rightarrow>
               (case cursor_Err cursor of
                  Some err \<Rightarrow> (([], Some err), db')
                | None \<Rightarrow> ((map (ToContract enc) modelSlice, None), db'))))"

subsection \<open>Update\<close>

text \<open>
  Modelled from the spec: \<^verbatim>\<open>FromContract\<close> of the package \<^verbatim>\<open>models\<close> is not
  among the sources. It decodes the identifier into the opaque identifier and
  the UUID, fails when the decoder does, and copies the other fields.
\<close>

definition FromContract :: "decoder \<Rightarrow> StoredObject \<Rightarrow> error + StoredObject_model" where
  "FromContract dec c =
     (case dec (ID c) of
        Inl err \<Rightarrow> Inl err
      | Inr (objID, uuid) \<Rightarrow>
          Inr \<lparr> m_ObjectID = objID, m_UUID = uuid, m_AppServiceKey = AppServiceKey c,
                m_Payload = Payload c, m_RetryCount = RetryCount c,
                m_PipelinePosition = PipelinePosition c, m_Version = Version c,
                m_CorrelationID = CorrelationID c, m_EventID = EventID c,
                m_EventChecksum = EventChecksum c \<rparr>)"

text \<open>
  Modelled from the spec: the encoding of the struct as a document, which the
  driver derives from the struct tags in the package \<^verbatim>\<open>models\<close>, is not among
  the sources. The document has the opaque identifier only when it is
  assigned, and every other field under the key \<^verbatim>\<open>Store\<close> writes it to.
\<close>

definition ToDocument :: "StoredObject_model \<Rightarrow> bsonM" where
  "ToDocument m =
     (if m_ObjectID m = NilObjectID then [] else [(''_id'', ObjectIDv (m_ObjectID m))]) @
     [(''uuid'', Stringv (m_UUID m)),
      (''appServiceKey'', Stringv (m_AppServiceKey m)),
      (''payload'', Binaryv (m_Payload m)),
      (''retryCount'', Intv (m_RetryCount m)),
      (''pipelinePosition'', Intv (m_PipelinePosition m)),
      (''version'', Stringv (m_Version m)),
      (''correlationID'', Stringv (m_CorrelationID m)),
      (''eventID'', Stringv (m_EventID m)),
      (''eventChecksum'', Stringv (m_EventChecksum m))]"

text \<open>
  \<^verbatim>\<open>ReplaceOne\<close> puts the replacement in the place of the first matching
  document, which keeps its \<^verbatim>\<open>_id\<close>, and does not fail when none matches.
\<close>

definition replacement :: "bsonM \<Rightarrow> bsonM \<Rightarrow> bsonM" where
  "replacement new old =
     (case map_of old ''_id'' of
        None \<Rightarrow> new
      | Some v \<Rightarrow> (''_id'', v) # AList.delete ''_id'' new)"

definition ReplaceOne ::
  "error option \<Rightarrow> bsonM \<Rightarrow> StoredObject_model \<Rightarrow> Database \<Rightarrow> error option \<times> Database" where
  "ReplaceOne fault flt m db =
     (case fault of
        Some e \<Rightarrow> (Some e, logged (ReplaceOne_call flt (ToDocument m)) db)
      | None \<Rightarrow>
          (None, logged (ReplaceOne_call flt (ToDocument m))
                   (db \<lparr> docs := update_first (matches flt) (replacement (ToDocument m)) (docs db) \<rparr>)))"

definition Update :: "decoder \<Rightarrow> error option \<Rightarrow> Database \<Rightarrow> StoredObject \<Rightarrow> error option \<times> Database" where
  "Update dec fault db obj =
     (if ID obj = [] then
        (Some (ErrorNew ''update argument object does not have an UUID''), db)
      else
        (case FromContract dec obj of
           Inl err \<Rightarrow> (Some err, db)
         | Inr model \<Rightarrow>
             (let flt = [(''_id'', ObjectIDv (m_ObjectID model))] in
              case ReplaceOne fault flt model db of
                (Some err, db') \<Rightarrow> (Some err, db')
              | (None, db') \<Rightarrow> (None, db'))))"

subsection \<open>UpdateRetryCount and RemoveFromStore\<close>

definition UpdateRetryCount ::
  "decoder \<Rightarrow> error option \<Rightarrow> Database \<Rightarrow> string \<Rightarrow> int \<Rightarrow> error option \<times> Database" where
  "UpdateRetryCount dec fault db cid count =
     (if cid = [] then (Some (ErrorNew ''no UUID provided''), db)
      else
        (case dec cid of
           Inl err \<Rightarrow> (Some err, db)
         | Inr (objID, _) \<Rightarrow>
             (let flt = [(''_id'', ObjectIDv objID)];
                  update = [(''$set'', Documentv [(''retryCount'', Intv count)])] in
              case UpdateOne fault flt update db of
                (Some err, db') \<Rightarrow> (Some err, db')
              | (None, db') \<Rightarrow> (None, db'))))"

definition RemoveFromStore ::
  "decoder \<Rightarrow> error option \<Rightarrow> Database \<Rightarrow> string \<Rightarrow> error option \<times> Database" where
  "RemoveFromStore dec fault db cid =
     (if cid = [] then (Some (ErrorNew ''no UUID provided''), db)
      else
        (case dec cid of
           Inl err \<Rightarrow> (Some err, db)
         | Inr (objID, _) \<Rightarrow>
             (let flt = [(''_id'', ObjectIDv objID)] in
              case DeleteOne fault flt db of
                (Some err, db') \<Rightarrow> (Some err, db')
              | (None, db') \<Rightarrow> (None, db'))))"

subsection \<open>The identifier codec\<close>

text \<open>
  Modelled from the spec: \<^verbatim>\<open>FromContractId\<close> and \<^verbatim>\<open>ToContractId\<close> of the
  package \<^verbatim>\<open>models\<close> are not among the sources. The composite identifier is
  the opaque identifier's segment, 24 hexadecimal digits, followed by the UUID's
  segment, which is empty or a UUID in its textual form of 36 characters. The
  empty string is valid and decodes to the zero opaque identifier with no UUID;
  a string that does not split so is malformed. Encoding is the inverse. The
  methods above do not depend on this format: they take the decoder as a
  parameter, and this one instantiates it.
\<close>

definition MalformedIdentifier :: error where
  "MalformedIdentifier = ErrorNew ''malformed identifier''"

text \<open>Modelled from the spec: the value of a hexadecimal digit, of the codec above.\<close>

definition hexval :: "char \<Rightarrow> nat option" where
  "hexval c =
     (if c \<in> set ''0123456789abcdef''
      then Some (length (takeWhile (\<lambda>x. x \<noteq> c) ''0123456789abcdef''))
      else None)"

text \<open>Modelled from the spec: the number a string of hexadecimal digits writes, of the codec above.\<close>

fun parse_hex :: "string \<Rightarrow> nat \<Rightarrow> nat option" where
  "parse_hex [] acc = Some acc"
| "parse_hex (c # cs) acc =
     (case hexval c of None \<Rightarrow> None | Some v \<Rightarrow> parse_hex cs (16 * acc + v))"

text \<open>Modelled from the spec: the textual form of a UUID, of the codec above.\<close>

definition is_uuid :: "string \<Rightarrow> bool" where
  "is_uuid u =
     (length u = 36 \<and>
      list_all (\<lambda>i. if i \<in> {8, 13, 18, 23} then u ! i = CHR ''-'' else hexval (u ! i) \<noteq> None)
        [0..<36])"

text \<open>
  Modelled from the spec: \<^verbatim>\<open>FromContractId\<close>, the decoder of the composite
  identifier, in the format described above.
\<close>

definition FromContractId :: decoder where
  "FromContractId cid =
     (if cid = [] then Inr (NilObjectID, [])
      else if length cid < 24 then Inl MalformedIdentifier
      else if drop 24 cid \<noteq> [] \<and> \<not> is_uuid (drop 24 cid) then Inl MalformedIdentifier
      else (case parse_hex (take 24 cid) 0 of
              None \<Rightarrow> Inl MalformedIdentifier
            | Some v \<Rightarrow> Inr (word_of_nat v, drop 24 cid)))"

text \<open>
  Modelled from the spec: \<^verbatim>\<open>ToContractId\<close>, the encoder, which the decoder
  inverts.
\<close>

definition ToContractId :: encoder where
  "ToContractId objID uuid = Hex objID @ uuid"

subsection \<open>Documents of the client's own\<close>

text \<open>
  A document is well formed when its keys are distinct, it decodes into the
  struct without error, and its object identifier is not the zero one. The
  documents the client writes are so, and its methods keep them so.
\<close>

definition wf_doc :: "bsonM \<Rightarrow> bool" where
  "wf_doc d =
     (distinct (map fst d) \<and>
      (case Unmarshal d zero_model of
         (None, m) \<Rightarrow> m_ObjectID m \<noteq> NilObjectID
       | (Some _, _) \<Rightarrow> False))"

definition decode_fails :: "bsonM \<Rightarrow> bool" where
  "decode_fails d = (fst (Unmarshal d zero_model) \<noteq> None)"

text \<open>The filters and the update document of the methods.\<close>

abbreviation by_uuid :: "string \<Rightarrow> bsonM" where
  "by_uuid uuid \<equiv> [(''uuid'', Stringv uuid)]"

abbreviation by_id :: "ObjectID \<Rightarrow> bsonM" where
  "by_id objID \<equiv> [(''_id'', ObjectIDv objID)]"

abbreviation by_key :: "string \<Rightarrow> bsonM" where
  "by_key appServiceKey \<equiv> [(''appServiceKey'', Stringv appServiceKey)]"

abbreviation set_retryCount :: "int \<Rightarrow> bsonM" where
  "set_retryCount n \<equiv> [(''$set'', Documentv [(''retryCount'', Intv n)])]"

abbreviation has_id :: "ObjectID \<Rightarrow> bsonM \<Rightarrow> bool" where
  "has_id i \<equiv> (\<lambda>d. map_of d ''_id'' = Some (ObjectIDv i))"

subsection \<open>Example data\<close>

text \<open>
  An object that was never stored, with a UUID and no opaque identifier, and
  one with another UUID; the first object under an identifier with the opaque
  identifier 5; a second identifier with the same opaque identifier and the
  other UUID; collections and environments of the driver.
\<close>

definition example_uuid :: string where
  "example_uuid = ''123e4567-e89b-12d3-a456-426614174000''"

definition example_uuid2 :: string where
  "example_uuid2 = ''00000000-0000-0000-0000-000000000001''"

definition example_obj :: StoredObject where
  "example_obj = \<lparr> ID = ''000000000000000000000000123e4567-e89b-12d3-a456-426614174000'',
     AppServiceKey = ''svcA'', Payload = [1, 2], RetryCount = 0, PipelinePosition = 0,
     Version = ''1'', CorrelationID = [], EventID = [], EventChecksum = [] \<rparr>"

definition example_obj2 :: StoredObject where
  "example_obj2 =
     example_obj \<lparr> ID := ''00000000000000000000000000000000-0000-0000-0000-000000000001'' \<rparr>"

definition example_id1 :: string where
  "example_id1 = ''000000000000000000000005123e4567-e89b-12d3-a456-426614174000''"

definition example_id2 :: string where
  "example_id2 = ''00000000000000000000000500000000-0000-0000-0000-000000000001''"


definition example_env :: store_env where
  "example_env = \<lparr> lookup_fault = None, insert_fault = None, new_id = 5 \<rparr>"



definition retrieve_ok :: retrieve_env where
  "retrieve_ok = \<lparr> find_fault = None, iter_fault = None \<rparr>"

definition retrieve_find_fails :: retrieve_env where
  "retrieve_find_fails =
     \<lparr> find_fault = Some (DriverError ''no reachable servers''), iter_fault = None \<rparr>"

definition retrieve_iter_fails :: retrieve_env where
  "retrieve_iter_fails =
     \<lparr> find_fault = None, iter_fault = Some (1, DriverError ''cursor closed'') \<rparr>"

definition empty_db :: Database where
  "empty_db = \<lparr> docs = [], calls = [] \<rparr>"

definition example_db :: Database where
  "example_db = \<lparr> docs = [(''_id'', ObjectIDv 5) # doc_unassigned example_uuid example_obj],
                  calls = [] \<rparr>"

definition bad_doc :: bsonM where
  "bad_doc = [(''_id'', ObjectIDv 6), (''appServiceKey'', Stringv ''svcA''),
              (''retryCount'', Stringv ''three'')]"

definition bad_db :: Database where
  "bad_db = \<lparr> docs = [(''_id'', ObjectIDv 5) # doc_unassigned example_uuid example_obj, bad_doc],
              calls = [] \<rparr>"


section \<open>Properties\<close>

subsection \<open>Hexadecimal form\<close>

lemma length_hex_digits: "length (hex_digits n v) = n"
  by (induction n arbitrary: v) simp_all

lemma length_Hex: "length (Hex i) = 24"
  by (simp add: Hex_def length_hex_digits)

lemma Hex_nonempty: "Hex i \<noteq> []"
  using length_Hex [of i] by auto

text \<open>
  No encoding that a decoder inverts on every pair can be the hexadecimal form
  of the opaque identifier: that form does not depend on the UUID.
\<close>

lemma no_inverse_of_Hex:
  fixes enc :: encoder and dec :: decoder
  assumes "\<And>i u. dec (enc i u) = Inr (i, u)"
  shows "\<exists>u. enc i u \<noteq> Hex i"
proof (rule ccontr)
  assume "\<not> (\<exists>u. enc i u \<noteq> Hex i)"
  then have "enc i [] = Hex i" "enc i ''u'' = Hex i" by simp_all
  then have "dec (enc i []) = dec (enc i ''u'')" by simp
  with assms show False by simp
qed

subsection \<open>Lists\<close>

lemma find_None_list_ex: "List.find P xs = None \<longleftrightarrow> \<not> list_ex P xs"
  by (induction xs) auto


lemma find_Some_set: "List.find P xs = Some x \<Longrightarrow> x \<in> set xs \<and> P x"
  by (induction xs) (auto split: if_splits)

lemma length_update_first: "length (update_first P f xs) = length xs"
  by (induction xs) simp_all

lemma update_first_none: "\<not> list_ex P xs \<Longrightarrow> update_first P f xs = xs"
  by (induction xs) simp_all

lemma nth_update_first:
  "i < length xs \<Longrightarrow>
     update_first P f xs ! i =
       (if P (xs ! i) \<and> (\<forall>j<i. \<not> P (xs ! j)) then f (xs ! i) else xs ! i)"
proof (induction xs arbitrary: i)
  case Nil
  then show ?case by simp
next
  case (Cons x xs)
  show ?case
  proof (cases i)
    case 0
    then show ?thesis by simp
  next
    case (Suc i')
    with Cons.prems have i': "i' < length xs" by simp
    show ?thesis
    proof (cases "P x")
      case True
      then have "\<not> (\<forall>j<i. \<not> P ((x # xs) ! j))" using Suc by auto
      with True Suc show ?thesis by auto
    next
      case False
      have "(\<forall>j<i. \<not> P ((x # xs) ! j)) \<longleftrightarrow> (\<forall>j<i'. \<not> P (xs ! j))"
        using False Suc by (auto simp: less_Suc_eq_0_disj)
      with False Suc Cons.IH [OF i'] show ?thesis by auto
    qed
  qed
qed

lemma list_all_update_first:
  "list_all Q xs \<Longrightarrow> (\<And>x. Q x \<Longrightarrow> Q (f x)) \<Longrightarrow> list_all Q (update_first P f xs)"
  by (induction xs) simp_all

lemma list_all_delete_first: "list_all Q xs \<Longrightarrow> list_all Q (delete_first P xs)"
  by (induction xs) simp_all

subsection \<open>The driver calls\<close>

lemma FindOne_fault: "FindOne (Some e) flt db = (Inl e, logged (FindOne_call flt) db)"
  by (simp add: FindOne_def)

lemma FindOne_none:
  "\<not> list_ex (matches flt) (docs db) \<Longrightarrow>
     FindOne None flt db = (Inl ErrNoDocuments, logged (FindOne_call flt) db)"
  using find_None_list_ex [of "matches flt" "docs db"] by (simp add: FindOne_def)


lemma map_of_doc_unassigned_id: "map_of (doc_unassigned uuid obj) ''_id'' = None"
  by (simp add: doc_unassigned_def)

lemma map_of_doc_assigned_id:
  "map_of (doc_assigned objID uuid obj) ''_id'' = Some (ObjectIDv objID)"
  by (simp add: doc_assigned_def)


lemma Store_insert_unassigned_ok:
  assumes "insert_fault env = None" "map_of doc ''_id'' = None"
    "\<not> list_ex (has_id (new_id env)) (docs db)"
  shows "Store_insert env doc db =
    ((Hex (new_id env), None),
     logged (InsertOne_call doc) (db \<lparr> docs := docs db @ [(''_id'', ObjectIDv (new_id env)) # doc] \<rparr>))"
  using assms by (simp add: Store_insert_def InsertOne_def with_id_def inserted_id_def)




subsection \<open>Decoding\<close>

lemma Unmarshal_new_doc:
  "Unmarshal ((''_id'', ObjectIDv i) # doc_unassigned uuid obj) zero_model =
     (None, \<lparr> m_ObjectID = i, m_UUID = uuid, m_AppServiceKey = AppServiceKey obj,
        m_Payload = Payload obj, m_RetryCount = RetryCount obj,
        m_PipelinePosition = PipelinePosition obj, m_Version = Version obj,
        m_CorrelationID = CorrelationID obj, m_EventID = EventID obj,
        m_EventChecksum = EventChecksum obj \<rparr>)"
  by (simp add: doc_unassigned_def set_field_def zero_model_def)



lemma decode_loop_char:
  "decode_loop ds acc =
     (case List.find decode_fails ds of
        Some d \<Rightarrow> Inl (the (fst (Unmarshal d zero_model)))
      | None \<Rightarrow> Inr (acc @ map (\<lambda>d. snd (Unmarshal d zero_model)) ds))"
  by (induction ds arbitrary: acc) (auto simp: decode_fails_def split: prod.splits option.splits)

lemma find_decode_fails:
  "List.find decode_fails ds = Some d \<Longrightarrow>
     Some (the (fst (Unmarshal d zero_model))) = fst (Unmarshal d zero_model)"
  using find_Some_set [of decode_fails ds d] by (auto simp: decode_fails_def)

subsection \<open>The paths of Store\<close>

lemma Store_unassigned:
  assumes "dec (ID obj) = Inr (NilObjectID, uuid)"
  shows "Store dec env db obj =
    (if snd (SingleResult_Decode (fst (FindOne (lookup_fault env) (by_uuid uuid) db)) zero_model)
          \<noteq> zero_model
     then (([], Some DuplicateObject), logged (FindOne_call (by_uuid uuid)) db)
     else Store_insert env (doc_unassigned uuid obj) (logged (FindOne_call (by_uuid uuid)) db))"
  using assms by (simp add: Store_def FindOne_def DuplicateObject_def Let_def split: option.splits)

lemma Store_assigned:
  assumes "dec (ID obj) = Inr (objID, uuid)" "objID \<noteq> NilObjectID"
  shows "Store dec env db obj = Store_insert env (doc_assigned objID uuid obj) db"
  using assms by (simp add: Store_def)


lemma Store_not_found:
  assumes "dec (ID obj) = Inr (NilObjectID, uuid)"
    "lookup_fault env \<noteq> None \<or> \<not> list_ex (matches (by_uuid uuid)) (docs db)"
  shows "Store dec env db obj =
    Store_insert env (doc_unassigned uuid obj) (logged (FindOne_call (by_uuid uuid)) db)"
proof (cases "lookup_fault env")
  case None
  with assms(2) have "\<not> list_ex (matches (by_uuid uuid)) (docs db)" by simp
  with None assms(1) show ?thesis
    by (simp add: Store_unassigned [of dec obj uuid env db] FindOne_none SingleResult_Decode_def)
next
  case (Some e)
  with assms(1) show ?thesis
    by (simp add: Store_unassigned [of dec obj uuid env db] FindOne_fault SingleResult_Decode_def)
qed

lemma Store_fresh:
  assumes "dec (ID obj) = Inr (NilObjectID, uuid)"
    "lookup_fault env \<noteq> None \<or> \<not> list_ex (matches (by_uuid uuid)) (docs db)"
    "insert_fault env = None" "\<not> list_ex (has_id (new_id env)) (docs db)"
  shows "Store dec env db obj =
    ((Hex (new_id env), None),
     \<lparr> docs = docs db @ [(''_id'', ObjectIDv (new_id env)) # doc_unassigned uuid obj],
       calls = calls db @ [FindOne_call (by_uuid uuid), InsertOne_call (doc_unassigned uuid obj)] \<rparr>)"
  using assms
  by (simp add: Store_not_found [of dec obj uuid env db] Store_insert_unassigned_ok
      map_of_doc_unassigned_id logged_def)

subsection \<open>The paths of RetrieveFromStore\<close>

lemma Retrieve_find_fault:
  "find_fault env = Some e \<Longrightarrow>
     RetrieveFromStore enc env db key = (([], Some e), logged (Find_call (by_key key)) db)"
  by (simp add: RetrieveFromStore_def Find_def)

lemma Retrieve_decode_error:
  assumes "find_fault env = None"
    "List.find decode_fails
       (batch (open_cursor (iter_fault env) (filter (matches (by_key key)) (docs db)))) = Some d"
  shows "RetrieveFromStore enc env db key =
     (([], fst (Unmarshal d zero_model)), logged (Find_call (by_key key)) db)"
  using assms find_decode_fails [OF assms(2)]
  by (simp add: RetrieveFromStore_def Find_def decode_loop_char Let_def)

lemma Retrieve_iter_fault:
  assumes "find_fault env = None" "iter_fault env = Some (k, e)"
    "\<not> list_ex decode_fails (take k (filter (matches (by_key key)) (docs db)))"
  shows "RetrieveFromStore enc env db key = (([], Some e), logged (Find_call (by_key key)) db)"
  using assms find_None_list_ex [of decode_fails "take k (filter (matches (by_key key)) (docs db))"]
  by (simp add: RetrieveFromStore_def Find_def decode_loop_char Let_def open_cursor_def)

lemma Retrieve_ok:
  assumes "find_fault env = None" "iter_fault env = None"
    "\<not> list_ex decode_fails (filter (matches (by_key key)) (docs db))"
  shows "RetrieveFromStore enc env db key =
     ((map (\<lambda>d. ToContract enc (snd (Unmarshal d zero_model)))
         (filter (matches (by_key key)) (docs db)), None),
      logged (Find_call (by_key key)) db)"
  using assms find_None_list_ex [of decode_fails "filter (matches (by_key key)) (docs db)"]
  by (simp add: RetrieveFromStore_def Find_def decode_loop_char Let_def open_cursor_def comp_def)

lemma Retrieve_snd:
  "snd (RetrieveFromStore enc env db key) = logged (Find_call (by_key key)) db"
  by (simp add: RetrieveFromStore_def Find_def Let_def split: option.splits sum.splits)

lemma Retrieve_error_no_objects:
  "snd (fst (RetrieveFromStore enc env db key)) \<noteq> None \<Longrightarrow>
     fst (fst (RetrieveFromStore enc env db key)) = []"
  by (simp add: RetrieveFromStore_def Find_def Let_def split: option.splits sum.splits)

subsection \<open>The paths of Update, UpdateRetryCount and RemoveFromStore\<close>

lemma apply_update_set_retryCount:
  "apply_update (set_retryCount n) = AList.update ''retryCount'' (Intv n)"
  by (simp add: apply_update_def fun_eq_iff)

lemma UpdateRetryCount_ok:
  assumes "cid \<noteq> []" "dec cid = Inr (objID, uuid)"
  shows "UpdateRetryCount dec None db cid n =
    (None, \<lparr> docs = update_first (matches (by_id objID))
                      (AList.update ''retryCount'' (Intv n)) (docs db),
             calls = calls db @ [UpdateOne_call (by_id objID) (set_retryCount n)] \<rparr>)"
  using assms
  by (cases db)
    (simp add: UpdateRetryCount_def UpdateOne_def logged_def apply_update_set_retryCount Let_def)

lemma UpdateRetryCount_fault:
  assumes "cid \<noteq> []" "dec cid = Inr (objID, uuid)"
  shows "UpdateRetryCount dec (Some e) db cid n =
    (Some e, logged (UpdateOne_call (by_id objID) (set_retryCount n)) db)"
  using assms by (simp add: UpdateRetryCount_def UpdateOne_def Let_def)

lemma RemoveFromStore_ok:
  assumes "cid \<noteq> []" "dec cid = Inr (objID, uuid)"
  shows "RemoveFromStore dec None db cid =
    (None, logged (DeleteOne_call (by_id objID))
             (db \<lparr> docs := delete_first (matches (by_id objID)) (docs db) \<rparr>))"
  using assms by (simp add: RemoveFromStore_def DeleteOne_def Let_def)

lemma RemoveFromStore_fault:
  assumes "cid \<noteq> []" "dec cid = Inr (objID, uuid)"
  shows "RemoveFromStore dec (Some e) db cid = (Some e, logged (DeleteOne_call (by_id objID)) db)"
  using assms by (simp add: RemoveFromStore_def DeleteOne_def Let_def)



subsection \<open>The identifier codec\<close>

text \<open>
  The decoder inverts the encoder on every opaque identifier and every UUID
  segment that is empty or a UUID, as the specification asks of the codec.
\<close>

lemma hexval_hexdigit_all: "\<forall>d\<in>set [0..<16]. hexval (hexdigit d) = Some d"
  by code_simp

lemma hexval_hexdigit: "d < 16 \<Longrightarrow> hexval (hexdigit d) = Some d"
  using hexval_hexdigit_all by simp

lemma parse_hex_append_digit:
  "d < 16 \<Longrightarrow> parse_hex (hexdigit d # cs) acc = parse_hex cs (16 * acc + d)"
  by (simp add: hexval_hexdigit)

lemma parse_hex_hex_digits:
  "parse_hex (hex_digits n v @ cs) acc = parse_hex cs (acc * 16 ^ n + v mod 16 ^ n)"
proof (induction n arbitrary: v cs)
  case 0
  then show ?case by simp
next
  case (Suc n)
  have d: "v mod 16 < 16" by simp
  have "parse_hex (hex_digits (Suc n) v @ cs) acc =
        parse_hex (hex_digits n (v div 16) @ (hexdigit (v mod 16) # cs)) acc"
    by simp
  also have "\<dots> = parse_hex (hexdigit (v mod 16) # cs) (acc * 16 ^ n + (v div 16) mod 16 ^ n)"
    by (rule Suc.IH)
  also have "\<dots> = parse_hex cs (16 * (acc * 16 ^ n + (v div 16) mod 16 ^ n) + v mod 16)"
    using d by (rule parse_hex_append_digit)
  also have "16 * (acc * 16 ^ n + (v div 16) mod 16 ^ n) + v mod 16 =
             acc * 16 ^ Suc n + v mod 16 ^ Suc n"
    by (simp add: mod_mult2_eq algebra_simps)
  finally show ?case .
qed

lemma parse_hex_Hex: "parse_hex (Hex i) 0 = Some (unat i)"
proof -
  have "unat i < 2 ^ 96" using unsigned_less [of i] by simp
  then have "unat i mod 16 ^ 24 = unat i" by simp
  with parse_hex_hex_digits [of 24 "unat i" "[]" 0] show ?thesis by (simp add: Hex_def)
qed

lemma FromContractId_ToContractId:
  assumes "uuid = [] \<or> is_uuid uuid"
  shows "FromContractId (ToContractId objID uuid) = Inr (objID, uuid)"
  using assms Hex_nonempty [of objID]
  by (auto simp: FromContractId_def ToContractId_def length_Hex parse_hex_Hex)

subsection \<open>The example data\<close>

lemma FromContractId_example_obj:
  "FromContractId (ID example_obj) = Inr (NilObjectID, example_uuid)"
  by (simp add: example_obj_def example_uuid_def FromContractId_def is_uuid_def hexval_def
      NilObjectID_def upt_rec)

lemma FromContractId_example_id1: "FromContractId example_id1 = Inr (5, example_uuid)"
  by (simp add: example_id1_def example_uuid_def FromContractId_def is_uuid_def hexval_def upt_rec)

lemma FromContractId_example_id2: "FromContractId example_id2 = Inr (5, example_uuid2)"
  by (simp add: example_id2_def example_uuid2_def FromContractId_def is_uuid_def hexval_def upt_rec)

lemma FromContractId_example_obj2:
  "FromContractId (ID example_obj2) = Inr (NilObjectID, example_uuid2)"
  by (simp add: example_obj2_def example_uuid2_def FromContractId_def is_uuid_def hexval_def
      NilObjectID_def upt_rec)

lemma example_uuids_differ: "example_uuid \<noteq> example_uuid2"
  by (simp add: example_uuid_def example_uuid2_def)




lemma example_id1_nonempty: "example_id1 \<noteq> []"
  by (simp add: example_id1_def)

lemma example_id2_nonempty: "example_id2 \<noteq> []"
  by (simp add: example_id2_def)



lemma example_doc_matches_key:
  "matches (by_key ''svcA'') ((''_id'', ObjectIDv 5) # doc_unassigned example_uuid example_obj)"
  by (simp add: matches_def doc_unassigned_def example_obj_def)

lemma example_doc_decodes:
  "\<not> decode_fails ((''_id'', ObjectIDv 5) # doc_unassigned example_uuid example_obj)"
  by (simp add: decode_fails_def Unmarshal_new_doc del: Unmarshal.simps)

lemma example_doc_matches_id:
  "matches (by_id 5) ((''_id'', ObjectIDv 5) # doc_unassigned example_uuid example_obj)"
  by (simp add: matches_def)

lemma bad_doc_matches_key: "matches (by_key ''svcA'') bad_doc"
  by (simp add: matches_def bad_doc_def)

lemma bad_doc_fails:
  "Unmarshal bad_doc zero_model =
     (Some (DecodeError ''retryCount''),
      zero_model \<lparr> m_ObjectID := 6, m_AppServiceKey := ''svcA'' \<rparr>)"
  by (simp add: bad_doc_def set_field_def)

subsection \<open>Well-formed documents are kept\<close>

text \<open>
  Whether a document decodes does not depend on the struct it is decoded into,
  and its object identifier is the value of its key \<^verbatim>\<open>_id\<close>. Hence every
  method of the client leaves a collection of well-formed documents so, given
  that the driver never generates the zero identifier.
\<close>

lemma set_field_isl: "isl (set_field k v m) = isl (set_field k v m')"
  by (simp add: set_field_def split: bson_value.splits)

lemma set_field_ObjectID:
  "set_field k v m = Inr m1 \<Longrightarrow> set_field k v m' = Inr m1' \<Longrightarrow> m_ObjectID m = m_ObjectID m' \<Longrightarrow>
     m_ObjectID m1 = m_ObjectID m1'"
  by (auto simp: set_field_def split: bson_value.splits if_splits)

lemma Unmarshal_indep:
  "m_ObjectID m = m_ObjectID m' \<Longrightarrow>
     fst (Unmarshal es m) = None \<Longrightarrow>
     fst (Unmarshal es m') = None \<and>
     m_ObjectID (snd (Unmarshal es m')) = m_ObjectID (snd (Unmarshal es m))"
proof (induction es arbitrary: m m')
  case Nil
  then show ?case by simp
next
  case (Cons kv es)
  obtain k v where kv: "kv = (k, v)" by (cases kv)
  from Cons.prems(2) kv obtain m1 where m1: "set_field k v m = Inr m1"
    by (cases "set_field k v m") auto
  with set_field_isl [of k v m m'] obtain m1' where m1': "set_field k v m' = Inr m1'"
    by (cases "set_field k v m'") auto
  have "m_ObjectID m1 = m_ObjectID m1'"
    using m1 m1' Cons.prems(1) by (rule set_field_ObjectID)
  moreover have "fst (Unmarshal es m1) = None" using Cons.prems(2) kv m1 by simp
  ultimately show ?case using Cons.IH [of m1 m1'] kv m1 m1' by simp
qed

lemma set_field_retryCount: "set_field ''retryCount'' (Intv n) m = Inr (m \<lparr> m_RetryCount := n \<rparr>)"
  by (simp add: set_field_def)

lemma Unmarshal_update_retryCount:
  "fst (Unmarshal d m) = None \<Longrightarrow>
     fst (Unmarshal (AList.update ''retryCount'' (Intv n) d) m) = None \<and>
     m_ObjectID (snd (Unmarshal (AList.update ''retryCount'' (Intv n) d) m)) =
       m_ObjectID (snd (Unmarshal d m))"
proof (induction d arbitrary: m)
  case Nil
  then show ?case by (simp add: set_field_retryCount)
next
  case (Cons kv es)
  obtain k v where kv: "kv = (k, v)" by (cases kv)
  from Cons.prems kv obtain m1 where m1: "set_field k v m = Inr m1"
    by (cases "set_field k v m") auto
  then have rest: "fst (Unmarshal es m1) = None" using Cons.prems kv by simp
  show ?case
  proof (cases "k = ''retryCount''")
    case True
    have "m_ObjectID m1 = m_ObjectID (m \<lparr> m_RetryCount := n \<rparr>)"
      using m1 True by (auto simp: set_field_def split: bson_value.splits)
    from Unmarshal_indep [OF this rest] show ?thesis
      using kv True m1 by (simp add: set_field_retryCount)
  next
    case False
    with Cons.IH [OF rest] kv m1 show ?thesis by simp
  qed
qed

lemma wf_doc_update_retryCount: "wf_doc d \<Longrightarrow> wf_doc (AList.update ''retryCount'' (Intv n) d)"
proof -
  assume w: "wf_doc d"
  then have f: "fst (Unmarshal d zero_model) = None"
    and i: "m_ObjectID (snd (Unmarshal d zero_model)) \<noteq> NilObjectID"
    and dd: "distinct (map fst d)"
    by (auto simp: wf_doc_def split: prod.splits option.splits)
  from Unmarshal_update_retryCount [OF f, of n] i dd show ?thesis
    by (auto simp: wf_doc_def distinct_update split: prod.splits option.splits)
qed

lemma Unmarshal_no_id:
  "''_id'' \<notin> fst ` set es \<Longrightarrow> m_ObjectID (snd (Unmarshal es m)) = m_ObjectID m"
proof (induction es arbitrary: m)
  case Nil
  then show ?case by simp
next
  case (Cons kv es)
  obtain k v where kv: "kv = (k, v)" by (cases kv)
  with Cons.prems have k: "k \<noteq> ''_id''" and rest: "''_id'' \<notin> fst ` set es" by auto
  show ?case
  proof (cases "set_field k v m")
    case (Inl e)
    with kv show ?thesis by simp
  next
    case (Inr m1)
    then have "m_ObjectID m1 = m_ObjectID m"
      using k by (auto simp: set_field_def split: bson_value.splits if_splits)
    with Cons.IH [OF rest, of m1] kv Inr show ?thesis by simp
  qed
qed

lemma Unmarshal_map_of_id:
  "distinct (map fst d) \<Longrightarrow> fst (Unmarshal d m) = None \<Longrightarrow> m_ObjectID (snd (Unmarshal d m)) \<noteq> m_ObjectID m \<Longrightarrow>
     map_of d ''_id'' = Some (ObjectIDv (m_ObjectID (snd (Unmarshal d m))))"
proof (induction d arbitrary: m)
  case Nil
  then show ?case by simp
next
  case (Cons kv es)
  obtain k v where kv: "kv = (k, v)" by (cases kv)
  from Cons.prems(2) kv obtain m1 where m1: "set_field k v m = Inr m1"
    by (cases "set_field k v m") auto
  then have rest: "fst (Unmarshal es m1) = None" using Cons.prems(2) kv by simp
  from Cons.prems(1) kv have dist: "distinct (map fst es)" and notin: "k \<notin> fst ` set es" by auto
  show ?case
  proof (cases "k = ''_id''")
    case True
    with notin have "m_ObjectID (snd (Unmarshal es m1)) = m_ObjectID m1"
      by (simp add: Unmarshal_no_id)
    moreover from m1 True have "v = ObjectIDv (m_ObjectID m1)"
      by (auto simp: set_field_def split: bson_value.splits)
    ultimately show ?thesis using kv True m1 by simp
  next
    case False
    then have "m_ObjectID m1 = m_ObjectID m"
      using m1 by (auto simp: set_field_def split: bson_value.splits if_splits)
    with Cons.prems(3) kv m1 have "m_ObjectID (snd (Unmarshal es m1)) \<noteq> m_ObjectID m1" by simp
    from Cons.IH [OF dist rest this] kv False m1 show ?thesis by simp
  qed
qed

lemma wf_doc_id:
  assumes "wf_doc d"
  shows "\<exists>i. map_of d ''_id'' = Some (ObjectIDv i) \<and> i \<noteq> NilObjectID"
proof -
  from assms have f: "fst (Unmarshal d zero_model) = None"
    and i: "m_ObjectID (snd (Unmarshal d zero_model)) \<noteq> NilObjectID"
    and dd: "distinct (map fst d)"
    by (auto simp: wf_doc_def split: prod.splits option.splits)
  from i have "m_ObjectID (snd (Unmarshal d zero_model)) \<noteq> m_ObjectID zero_model"
    by (simp add: zero_model_def)
  from Unmarshal_map_of_id [OF dd f this] i show ?thesis by blast
qed

lemma wf_doc_replacement: "wf_doc old \<Longrightarrow> wf_doc (replacement (ToDocument m) old)"
proof -
  assume "wf_doc old"
  then obtain i where i: "map_of old ''_id'' = Some (ObjectIDv i)" "i \<noteq> NilObjectID"
    using wf_doc_id by blast
  then show ?thesis
    by (simp add: replacement_def ToDocument_def wf_doc_def set_field_def zero_model_def)
qed

lemma wf_doc_new: "i \<noteq> NilObjectID \<Longrightarrow> wf_doc ((''_id'', ObjectIDv i) # doc_unassigned uuid obj)"
  by (simp add: wf_doc_def Unmarshal_new_doc del: Unmarshal.simps) (simp add: doc_unassigned_def)

lemma wf_doc_assigned: "i \<noteq> NilObjectID \<Longrightarrow> wf_doc (doc_assigned i uuid obj)"
  by (simp add: wf_doc_def doc_assigned_def set_field_def zero_model_def)

lemma wf_Store_insert:
  assumes "list_all wf_doc (docs db)" "wf_doc (with_id (new_id env) doc)"
  shows "list_all wf_doc (docs (snd (Store_insert env doc db)))"
  using assms
  by (simp add: Store_insert_def InsertOne_def logged_def split: option.splits bson_value.splits)

lemma wf_preserved:
  assumes "list_all wf_doc (docs db)"
  shows "(new_id env \<noteq> NilObjectID \<longrightarrow> list_all wf_doc (docs (snd (Store dec env db obj))))"
    and "list_all wf_doc (docs (snd (Update dec fault db obj)))"
    and "list_all wf_doc (docs (snd (UpdateRetryCount dec fault db cid n)))"
    and "list_all wf_doc (docs (snd (RemoveFromStore dec fault db cid)))"
proof -
  show "new_id env \<noteq> NilObjectID \<longrightarrow> list_all wf_doc (docs (snd (Store dec env db obj)))"
  proof
    assume n: "new_id env \<noteq> NilObjectID"
    show "list_all wf_doc (docs (snd (Store dec env db obj)))"
    proof (cases "dec (ID obj)")
      case (Inl e)
      with assms show ?thesis by (simp add: Store_def)
    next
      case (Inr p)
      obtain objID uuid where p: "p = (objID, uuid)" by (cases p)
      show ?thesis
      proof (cases "objID = NilObjectID")
        case True
        have w: "wf_doc (with_id (new_id env) (doc_unassigned uuid obj))"
          using n by (simp add: with_id_def map_of_doc_unassigned_id wf_doc_new)
        have l: "list_all wf_doc (docs (logged (FindOne_call (by_uuid uuid)) db))"
          using assms by (simp add: logged_def)
        from Inr p True show ?thesis
          using wf_Store_insert [OF l w] assms
          by (simp add: Store_unassigned [of dec obj uuid env db] logged_def)
      next
        case False
        then have w: "wf_doc (with_id (new_id env) (doc_assigned objID uuid obj))"
          by (simp add: with_id_def map_of_doc_assigned_id wf_doc_assigned)
        from Inr p False show ?thesis
          using wf_Store_insert [OF assms w]
          by (simp add: Store_assigned [of dec obj objID uuid env db])
      qed
    qed
  qed
  show "list_all wf_doc (docs (snd (Update dec fault db obj)))"
    using assms
    by (auto simp: Update_def ReplaceOne_def logged_def Let_def list_all_update_first
        wf_doc_replacement split: sum.splits option.splits)
  show "list_all wf_doc (docs (snd (UpdateRetryCount dec fault db cid n)))"
    using assms
    by (auto simp: UpdateRetryCount_def UpdateOne_def logged_def Let_def list_all_update_first
        apply_update_set_retryCount wf_doc_update_retryCount split: sum.splits option.splits)
  show "list_all wf_doc (docs (snd (RemoveFromStore dec fault db cid)))"
    using assms
    by (auto simp: RemoveFromStore_def DeleteOne_def logged_def Let_def list_all_delete_first
        split: sum.splits option.splits)
qed

section \<open>The claims\<close>

subsection \<open>Store\<close>




text \<open>
  C2, as amended. For a stored object whose identifier decodes to no opaque
  identifier, when the lookup finds no document (it fails, or no document has
  the UUID) and the insertion succeeds, \<^verbatim>\<open>Store\<close> returns the hexadecimal form
  of the opaque identifier the store assigned, and nothing of the UUID; the
  collection gains the document with that identifier.
\<close>

theorem Store_returns_hex_of_opaque_id:
  assumes "dec (ID obj) = Inr (NilObjectID, uuid)"
    and "lookup_fault env \<noteq> None \<or> \<not> list_ex (matches (by_uuid uuid)) (docs db)"
    and "insert_fault env = None"
    and "\<not> list_ex (has_id (new_id env)) (docs db)"
  shows "fst (Store dec env db obj) = (Hex (new_id env), None) \<and>
         docs (snd (Store dec env db obj)) =
           docs db @ [(''_id'', ObjectIDv (new_id env)) # doc_unassigned uuid obj]"
  using assms Store_fresh [of dec obj uuid env db] by simp

theorem Store_returns_hex_of_opaque_id_witness:
  "fst (Store FromContractId example_env empty_db example_obj) = (Hex 5, None) \<and>
   docs (snd (Store FromContractId example_env empty_db example_obj)) =
     [(''_id'', ObjectIDv 5) # doc_unassigned example_uuid example_obj]"
  using Store_returns_hex_of_opaque_id [of FromContractId example_obj example_uuid example_env empty_db]
  by (simp add: FromContractId_example_obj) (simp add: example_env_def empty_db_def)

text \<open>
  C2 as stated fails. The two example objects decode to no opaque identifier
  and to different UUIDs; for each the lookup finds nothing and the insertion
  succeeds with the store assigning the opaque identifier 5. The identifier
  returned is in both cases the hexadecimal form of 5, the opaque identifier
  alone, and not the encoding of 5 together with the object's UUID.
\<close>

theorem Store_result_not_composite_counterexample:
  "FromContractId (ID example_obj) = Inr (NilObjectID, example_uuid) \<and>
   FromContractId (ID example_obj2) = Inr (NilObjectID, example_uuid2) \<and>
   example_uuid \<noteq> example_uuid2 \<and>
   fst (Store FromContractId example_env empty_db example_obj) = (Hex 5, None) \<and>
   fst (Store FromContractId example_env empty_db example_obj2) = (Hex 5, None) \<and>
   fst (fst (Store FromContractId example_env empty_db example_obj)) \<noteq>
     ToContractId 5 example_uuid \<and>
   fst (fst (Store FromContractId example_env empty_db example_obj2)) \<noteq>
     ToContractId 5 example_uuid2"
proof -
  have s: "fst (Store FromContractId example_env empty_db example_obj) = (Hex 5, None)"
    using Store_fresh [of FromContractId example_obj example_uuid example_env empty_db]
    by (simp add: FromContractId_example_obj) (simp add: example_env_def empty_db_def)
  have s2: "fst (Store FromContractId example_env empty_db example_obj2) = (Hex 5, None)"
    using Store_fresh [of FromContractId example_obj2 example_uuid2 example_env empty_db]
    by (simp add: FromContractId_example_obj2) (simp add: example_env_def empty_db_def)
  have "Hex 5 \<noteq> ToContractId 5 example_uuid" "Hex 5 \<noteq> ToContractId 5 example_uuid2"
    by (simp_all add: ToContractId_def example_uuid_def example_uuid2_def)
  with s s2 show ?thesis
    by (simp add: FromContractId_example_obj FromContractId_example_obj2 example_uuids_differ)
qed





subsection \<open>Update\<close>

text \<open>
  C5. \<^verbatim>\<open>Update\<close> of a stored object with the empty identifier fails with the
  error that no identifier is given, and makes no driver call: the log of calls
  and the documents are as before.
\<close>

theorem Update_empty_ID:
  assumes "ID obj = []"
  shows "fst (Update dec fault db obj) = Some MissingIdentifier_Update \<and>
         calls (snd (Update dec fault db obj)) = calls db \<and>
         docs (snd (Update dec fault db obj)) = docs db"
  using assms by (simp add: Update_def MissingIdentifier_Update_def)

theorem Update_empty_ID_witness:
  "fst (Update FromContractId None example_db (example_obj \<lparr> ID := [] \<rparr>)) =
     Some MissingIdentifier_Update \<and>
   calls (snd (Update FromContractId None example_db (example_obj \<lparr> ID := [] \<rparr>))) =
     calls example_db \<and>
   docs (snd (Update FromContractId None example_db (example_obj \<lparr> ID := [] \<rparr>))) =
     docs example_db"
  using Update_empty_ID [of "example_obj \<lparr> ID := [] \<rparr>" FromContractId None example_db]
  by simp

subsection \<open>RetrieveFromStore\<close>

text \<open>
  C6. \<^verbatim>\<open>RetrieveFromStore\<close> is all or nothing. Whenever it returns an error it
  returns no objects. It returns the error of \<^verbatim>\<open>Find\<close> when that call fails,
  the error of the first delivered document that does not decode, and the
  error the iteration stopped with when the documents delivered before decode;
  otherwise it returns no error and one object for each document whose
  \<^verbatim>\<open>appServiceKey\<close> is the given one, in the store's order. The collection is
  not changed.
\<close>

theorem RetrieveFromStore_all_or_nothing:
  "(snd (fst (RetrieveFromStore enc env db key)) \<noteq> None \<longrightarrow>
      fst (fst (RetrieveFromStore enc env db key)) = [])
   \<and> (find_fault env = Some e \<longrightarrow> fst (RetrieveFromStore enc env db key) = ([], Some e))
   \<and> (find_fault env = None \<and>
      List.find decode_fails
        (batch (open_cursor (iter_fault env) (filter (matches (by_key key)) (docs db)))) = Some d \<longrightarrow>
        fst (RetrieveFromStore enc env db key) = ([], fst (Unmarshal d zero_model)) \<and>
        fst (Unmarshal d zero_model) \<noteq> None)
   \<and> (find_fault env = None \<and> iter_fault env = Some (k, e) \<and>
      \<not> list_ex decode_fails (take k (filter (matches (by_key key)) (docs db))) \<longrightarrow>
        fst (RetrieveFromStore enc env db key) = ([], Some e))
   \<and> (find_fault env = None \<and> iter_fault env = None \<and>
      \<not> list_ex decode_fails (filter (matches (by_key key)) (docs db)) \<longrightarrow>
        fst (RetrieveFromStore enc env db key) =
          (map (\<lambda>d. ToContract enc (snd (Unmarshal d zero_model)))
             (filter (matches (by_key key)) (docs db)), None) \<and>
        length (fst (fst (RetrieveFromStore enc env db key))) =
          length (filter (matches (by_key key)) (docs db)))
   \<and> docs (snd (RetrieveFromStore enc env db key)) = docs db"
proof (intro conjI impI)
  show "fst (fst (RetrieveFromStore enc env db key)) = []"
    if "snd (fst (RetrieveFromStore enc env db key)) \<noteq> None"
    using that by (rule Retrieve_error_no_objects)
  show "fst (RetrieveFromStore enc env db key) = ([], Some e)" if "find_fault env = Some e"
    using that by (simp add: Retrieve_find_fault)
  show "fst (RetrieveFromStore enc env db key) = ([], fst (Unmarshal d zero_model))"
    if "find_fault env = None \<and>
      List.find decode_fails
        (batch (open_cursor (iter_fault env) (filter (matches (by_key key)) (docs db)))) = Some d"
    using that by (simp add: Retrieve_decode_error)
  show "fst (Unmarshal d zero_model) \<noteq> None"
    if "find_fault env = None \<and>
      List.find decode_fails
        (batch (open_cursor (iter_fault env) (filter (matches (by_key key)) (docs db)))) = Some d"
  proof -
    from that have "decode_fails d" using find_Some_set [of decode_fails _ d] by blast
    then show ?thesis by (simp add: decode_fails_def)
  qed
  show "fst (RetrieveFromStore enc env db key) = ([], Some e)"
    if "find_fault env = None \<and> iter_fault env = Some (k, e) \<and>
      \<not> list_ex decode_fails (take k (filter (matches (by_key key)) (docs db)))"
    using that by (simp add: Retrieve_iter_fault)
  show "fst (RetrieveFromStore enc env db key) =
          (map (\<lambda>d. ToContract enc (snd (Unmarshal d zero_model)))
             (filter (matches (by_key key)) (docs db)), None)"
    if "find_fault env = None \<and> iter_fault env = None \<and>
      \<not> list_ex decode_fails (filter (matches (by_key key)) (docs db))"
    using that by (simp add: Retrieve_ok)
  show "length (fst (fst (RetrieveFromStore enc env db key))) =
          length (filter (matches (by_key key)) (docs db))"
    if "find_fault env = None \<and> iter_fault env = None \<and>
      \<not> list_ex decode_fails (filter (matches (by_key key)) (docs db))"
    using that by (simp add: Retrieve_ok)
  show "docs (snd (RetrieveFromStore enc env db key)) = docs db"
    by (simp add: Retrieve_snd logged_def)
qed

theorem RetrieveFromStore_all_or_nothing_witness:
  "fst (RetrieveFromStore ToContractId retrieve_find_fails example_db ''svcA'') =
     ([], Some (DriverError ''no reachable servers'')) \<and>
   fst (RetrieveFromStore ToContractId retrieve_ok bad_db ''svcA'') =
     ([], Some (DecodeError ''retryCount'')) \<and>
   fst (RetrieveFromStore ToContractId retrieve_iter_fails bad_db ''svcA'') =
     ([], Some (DriverError ''cursor closed'')) \<and>
   snd (fst (RetrieveFromStore ToContractId retrieve_ok example_db ''svcA'')) = None \<and>
   length (fst (fst (RetrieveFromStore ToContractId retrieve_ok example_db ''svcA''))) = 1 \<and>
   docs (snd (RetrieveFromStore ToContractId retrieve_ok example_db ''svcA'')) = docs example_db"
proof -
  have e: "find_fault retrieve_find_fails = Some (DriverError ''no reachable servers'')"
    "find_fault retrieve_ok = None" "iter_fault retrieve_ok = None"
    "find_fault retrieve_iter_fails = None"
    "iter_fault retrieve_iter_fails = Some (1, DriverError ''cursor closed'')"
    by (simp_all add: retrieve_find_fails_def retrieve_ok_def retrieve_iter_fails_def)
  have m: "filter (matches (by_key ''svcA'')) (docs example_db) = docs example_db"
      "filter (matches (by_key ''svcA'')) (docs bad_db) = docs bad_db"
    by (simp_all add: example_db_def bad_db_def example_doc_matches_key bad_doc_matches_key)
  have bad: "decode_fails bad_doc" by (simp add: decode_fails_def bad_doc_fails)
  have f: "List.find decode_fails (docs bad_db) = Some bad_doc"
      "\<not> list_ex decode_fails (take (Suc 0) (docs bad_db))"
      "\<not> list_ex decode_fails (docs example_db)"
      "length (docs example_db) = 1"
    by (simp_all add: bad_db_def example_db_def example_doc_decodes bad)
  from RetrieveFromStore_all_or_nothing [where enc = ToContractId and env = retrieve_find_fails
      and db = example_db and key = "''svcA''" and e = "DriverError ''no reachable servers''"]
  have 1: "fst (RetrieveFromStore ToContractId retrieve_find_fails example_db ''svcA'') =
     ([], Some (DriverError ''no reachable servers''))"
    by (simp add: e)
  from RetrieveFromStore_all_or_nothing [where enc = ToContractId and env = retrieve_ok
      and db = bad_db and key = "''svcA''" and d = bad_doc]
  have 2: "fst (RetrieveFromStore ToContractId retrieve_ok bad_db ''svcA'') =
     ([], Some (DecodeError ''retryCount''))"
    by (simp add: e m f open_cursor_def bad_doc_fails)
  from RetrieveFromStore_all_or_nothing [where enc = ToContractId and env = retrieve_iter_fails
      and db = bad_db and key = "''svcA''" and k = 1 and e = "DriverError ''cursor closed''"]
  have 3: "fst (RetrieveFromStore ToContractId retrieve_iter_fails bad_db ''svcA'') =
     ([], Some (DriverError ''cursor closed''))"
    by (simp add: e m f)
  from RetrieveFromStore_all_or_nothing [where enc = ToContractId and env = retrieve_ok
      and db = example_db and key = "''svcA''"]
  have 4: "snd (fst (RetrieveFromStore ToContractId retrieve_ok example_db ''svcA'')) = None \<and>
   length (fst (fst (RetrieveFromStore ToContractId retrieve_ok example_db ''svcA''))) = 1 \<and>
   docs (snd (RetrieveFromStore ToContractId retrieve_ok example_db ''svcA'')) = docs example_db"
    by (simp add: e m f)
  from 1 2 3 4 show ?thesis by simp
qed

subsection \<open>UpdateRetryCount and RemoveFromStore\<close>

text \<open>
  C7. \<^verbatim>\<open>UpdateRetryCount\<close> with the empty identifier fails with the error that
  no identifier is given and touches nothing. With a non-empty identifier that
  decodes it makes the one call \<^verbatim>\<open>UpdateOne\<close>, filtered by the decoded opaque
  identifier and setting \<^verbatim>\<open>retryCount\<close>, and returns what the driver returns:
  no error whenever the call is served, whether a document matches or not. In
  every case each document has afterwards every key other than
  \<^verbatim>\<open>retryCount\<close> as before. When the call is served, the first document with
  that opaque identifier has the given count under \<^verbatim>\<open>retryCount\<close>, every
  other document is as before, and when none matches the collection is as
  before.
\<close>

theorem UpdateRetryCount_sets_only_RetryCount:
  "fst (UpdateRetryCount dec fault db [] n) = Some MissingIdentifier
   \<and> snd (UpdateRetryCount dec fault db [] n) = db
   \<and> (cid \<noteq> [] \<and> dec cid = Inr (objID, uuid) \<longrightarrow>
        fst (UpdateRetryCount dec fault db cid n) = fault \<and>
        calls (snd (UpdateRetryCount dec fault db cid n)) =
          calls db @ [UpdateOne_call (by_id objID) (set_retryCount n)] \<and>
        length (docs (snd (UpdateRetryCount dec fault db cid n))) = length (docs db) \<and>
        (\<forall>i<length (docs db). \<forall>k. k \<noteq> ''retryCount'' \<longrightarrow>
           map_of (docs (snd (UpdateRetryCount dec fault db cid n)) ! i) k =
             map_of (docs db ! i) k) \<and>
        (\<forall>i<length (docs db).
           if matches (by_id objID) (docs db ! i) \<and> (\<forall>j<i. \<not> matches (by_id objID) (docs db ! j))
           then map_of (docs (snd (UpdateRetryCount dec None db cid n)) ! i) =
                  (map_of (docs db ! i))(''retryCount'' \<mapsto> Intv n)
           else docs (snd (UpdateRetryCount dec None db cid n)) ! i = docs db ! i) \<and>
        (\<not> list_ex (matches (by_id objID)) (docs db) \<longrightarrow>
           fst (UpdateRetryCount dec None db cid n) = None \<and>
           docs (snd (UpdateRetryCount dec None db cid n)) = docs db))"
proof (intro conjI impI)
  show "fst (UpdateRetryCount dec fault db [] n) = Some MissingIdentifier"
    by (simp add: UpdateRetryCount_def MissingIdentifier_def)
  show "snd (UpdateRetryCount dec fault db [] n) = db"
    by (simp add: UpdateRetryCount_def)
next
  assume h: "cid \<noteq> [] \<and> dec cid = Inr (objID, uuid)"
  then have u: "UpdateRetryCount dec None db cid n =
    (None, \<lparr> docs = update_first (matches (by_id objID))
                      (AList.update ''retryCount'' (Intv n)) (docs db),
             calls = calls db @ [UpdateOne_call (by_id objID) (set_retryCount n)] \<rparr>)"
    using UpdateRetryCount_ok [of cid dec objID uuid db n] by simp
  have f: "UpdateRetryCount dec (Some e) db cid n =
    (Some e, logged (UpdateOne_call (by_id objID) (set_retryCount n)) db)" for e
    using h UpdateRetryCount_fault [of cid dec objID uuid e db n] by simp
  show "fst (UpdateRetryCount dec fault db cid n) = fault"
    by (cases fault) (simp_all add: u f)
  show "calls (snd (UpdateRetryCount dec fault db cid n)) =
          calls db @ [UpdateOne_call (by_id objID) (set_retryCount n)]"
    by (cases fault) (simp_all add: u f logged_def)
  show "length (docs (snd (UpdateRetryCount dec fault db cid n))) = length (docs db)"
    by (cases fault) (simp_all add: u f logged_def length_update_first)
  show "\<forall>i<length (docs db). \<forall>k. k \<noteq> ''retryCount'' \<longrightarrow>
           map_of (docs (snd (UpdateRetryCount dec fault db cid n)) ! i) k =
             map_of (docs db ! i) k"
    by (cases fault) (auto simp: u f logged_def nth_update_first update_conv')
  show "\<forall>i<length (docs db).
           if matches (by_id objID) (docs db ! i) \<and> (\<forall>j<i. \<not> matches (by_id objID) (docs db ! j))
           then map_of (docs (snd (UpdateRetryCount dec None db cid n)) ! i) =
                  (map_of (docs db ! i))(''retryCount'' \<mapsto> Intv n)
           else docs (snd (UpdateRetryCount dec None db cid n)) ! i = docs db ! i"
    by (auto simp: u nth_update_first update_conv')
  show "fst (UpdateRetryCount dec None db cid n) = None"
    if "\<not> list_ex (matches (by_id objID)) (docs db)"
    by (simp add: u)
  show "docs (snd (UpdateRetryCount dec None db cid n)) = docs db"
    if "\<not> list_ex (matches (by_id objID)) (docs db)"
    using that by (simp add: u update_first_none)
qed

theorem UpdateRetryCount_sets_only_RetryCount_witness:
  "fst (UpdateRetryCount FromContractId None example_db [] 3) = Some MissingIdentifier \<and>
   fst (UpdateRetryCount FromContractId None example_db example_id1 3) = None \<and>
   map_of (docs (snd (UpdateRetryCount FromContractId None example_db example_id1 3)) ! 0) =
     (map_of (docs example_db ! 0))(''retryCount'' \<mapsto> Intv 3) \<and>
   map_of (docs (snd (UpdateRetryCount FromContractId None example_db example_id1 3)) ! 0)
       ''payload'' = map_of (docs example_db ! 0) ''payload'' \<and>
   fst (UpdateRetryCount FromContractId None empty_db example_id1 3) = None \<and>
   docs (snd (UpdateRetryCount FromContractId None empty_db example_id1 3)) = docs empty_db"
proof -
  have f: "length (docs example_db) = 1" "matches (by_id 5) (docs example_db ! 0)"
    "docs empty_db = []"
    by (simp_all add: example_db_def empty_db_def example_doc_matches_id)
  from UpdateRetryCount_sets_only_RetryCount [where dec = FromContractId and fault = None
      and db = example_db and n = 3 and cid = example_id1 and objID = 5
      and uuid = example_uuid]
  have 1: "fst (UpdateRetryCount FromContractId None example_db [] 3) = Some MissingIdentifier \<and>
   fst (UpdateRetryCount FromContractId None example_db example_id1 3) = None \<and>
   map_of (docs (snd (UpdateRetryCount FromContractId None example_db example_id1 3)) ! 0) =
     (map_of (docs example_db ! 0))(''retryCount'' \<mapsto> Intv 3) \<and>
   map_of (docs (snd (UpdateRetryCount FromContractId None example_db example_id1 3)) ! 0)
       ''payload'' = map_of (docs example_db ! 0) ''payload''"
    by (simp add: f example_id1_nonempty FromContractId_example_id1)
  from UpdateRetryCount_sets_only_RetryCount [where dec = FromContractId and fault = None
      and db = empty_db and n = 3 and cid = example_id1 and objID = 5
      and uuid = example_uuid]
  have 2: "fst (UpdateRetryCount FromContractId None empty_db example_id1 3) = None \<and>
   docs (snd (UpdateRetryCount FromContractId None empty_db example_id1 3)) = docs empty_db"
    by (simp add: f example_id1_nonempty FromContractId_example_id1)
  from 1 2 show ?thesis by simp
qed

text \<open>
  C10. \<^verbatim>\<open>UpdateRetryCount\<close> and \<^verbatim>\<open>RemoveFromStore\<close> do not look at the UUID of
  the identifier. On two non-empty identifiers that decode to the same opaque
  identifier, with whatever UUIDs, each of them returns the same error or
  success and leaves the same collection and the same log of calls, in every
  environment; the one call it makes is filtered by the opaque identifier alone.
\<close>

theorem opaque_id_alone_selects:
  assumes "dec cid1 = Inr (objID, uuid1)" and "dec cid2 = Inr (objID, uuid2)"
    and "cid1 \<noteq> []" and "cid2 \<noteq> []"
  shows "UpdateRetryCount dec fault db cid1 n = UpdateRetryCount dec fault db cid2 n \<and>
         RemoveFromStore dec fault db cid1 = RemoveFromStore dec fault db cid2 \<and>
         calls (snd (UpdateRetryCount dec fault db cid1 n)) =
           calls db @ [UpdateOne_call (by_id objID) (set_retryCount n)] \<and>
         calls (snd (RemoveFromStore dec fault db cid1)) =
           calls db @ [DeleteOne_call (by_id objID)]"
proof (cases fault)
  case None
  with assms show ?thesis
    by (simp add: UpdateRetryCount_ok [of _ dec objID] RemoveFromStore_ok [of _ dec objID] logged_def)
next
  case (Some e)
  with assms show ?thesis
    by (simp add: UpdateRetryCount_fault [of _ dec objID] RemoveFromStore_fault [of _ dec objID]
        logged_def)
qed

theorem opaque_id_alone_selects_witness:
  "example_id1 \<noteq> example_id2 \<and>
   example_uuid \<noteq> example_uuid2 \<and>
   UpdateRetryCount FromContractId None example_db example_id1 3 =
     UpdateRetryCount FromContractId None example_db example_id2 3 \<and>
   RemoveFromStore FromContractId None example_db example_id1 =
     RemoveFromStore FromContractId None example_db example_id2 \<and>
   calls (snd (UpdateRetryCount FromContractId None example_db example_id1 3)) =
     [UpdateOne_call (by_id 5) (set_retryCount 3)] \<and>
   calls (snd (RemoveFromStore FromContractId None example_db example_id1)) =
     [DeleteOne_call (by_id 5)]"
proof -
  have d: "example_id1 \<noteq> example_id2" "example_uuid \<noteq> example_uuid2"
    by (simp_all add: example_id1_def example_id2_def example_uuids_differ)
  have c: "calls example_db = []" by (simp add: example_db_def)
  from opaque_id_alone_selects [OF FromContractId_example_id1 FromContractId_example_id2
      example_id1_nonempty example_id2_nonempty, of None example_db 3] d c
  show ?thesis by auto
qed

subsection \<open>Failures\<close>




end
